theory Spec2Isabelle
  imports Main "HOL-Library.Sublist"
begin

section \<open>JavaScript values\<close>

text \<open>
  An error object as the scripts use it: its class name, its \<open>message\<close> and its
  \<open>code\<close> (set by the file system functions of Node.js, absent on an error made
  with \<open>new Error\<close>). Every rejection and every throw of the scripts carries such
  an object.
\<close>

datatype js_error = JsError (err_name: string) (message: string) (code: "string option")

definition new_Error :: "string \<Rightarrow> js_error" where
  "new_Error msg = JsError ''Error'' msg None"

text \<open>
  Reading a property of \<open>undefined\<close> throws a TypeError; the text is the one of
  the V8 engine.
\<close>

definition undefined_property :: "string \<Rightarrow> js_error" where
  "undefined_property p =
     JsError ''TypeError''
       (''Cannot read properties of undefined (reading '' @ [CHR 0x27] @ p @ [CHR 0x27] @ '')'')
       None"

text \<open>
  Numbers in a template literal: the scripts interpolate whole numbers only (attempt
  counts, a status code, a byte count, an exit code), which print in decimal.
\<close>

definition digit_char :: "nat \<Rightarrow> char" where
  "digit_char d = ''0123456789'' ! d"

fun digits :: "nat \<Rightarrow> string" where
  "digits n = (if n < 10 then [digit_char n] else digits (n div 10) @ [digit_char (n mod 10)])"

declare digits.simps [simp del]

definition js_num :: "int \<Rightarrow> string" where
  "js_num i = (if i < 0 then ''-'' @ digits (nat (- i)) else digits (nat i))"

text \<open>
  \<open>String.prototype.replace\<close> with a string pattern replaces the first occurrence
  only. The scripts call it with the replacement \<open>""\<close>, so the dollar patterns of the
  replacement text play no role.
\<close>

fun replace_first :: "string \<Rightarrow> string \<Rightarrow> string \<Rightarrow> string" where
  "replace_first pat rep [] = (if pat = [] then rep else [])"
| "replace_first pat rep (c # cs) =
     (if prefix pat (c # cs) then rep @ drop (length pat) (c # cs)
      else c # replace_first pat rep cs)"

section \<open>Message texts\<close>

text \<open>
  The message texts of the scripts are Chinese; they are given here as their UTF-8 bytes,
  each with the place it is written at and an English gloss:
  \<^item> \<open>txt_retry_exhausted_a\<close>: install script line 59, literal before the attempt count ('after');
  \<^item> \<open>txt_retry_exhausted_b\<close>: line 59, literal between the attempt count and the last message ('attempts the operation still failed:');
  \<^item> \<open>txt_not_ready_a\<close>: line 78, literal before the attempt count ('the file, after');
  \<^item> \<open>txt_not_ready_b\<close>: line 78, literal between the attempt count and the path ('attempts, is still unavailable:');
  \<^item> \<open>txt_bad_status\<close>: line 133 ('download failed: status code');
  \<^item> \<open>txt_url_unset\<close>: line 238 ('download base URL not set');
  \<^item> \<open>txt_mkdir_a\<close>: line 246 ('cannot create the destination directory:');
  \<^item> \<open>txt_mkdir_b\<close>: line 246 (', error:');
  \<^item> \<open>txt_download_failed\<close>: line 255 ('cannot download the zip file:');
  \<^item> \<open>txt_too_small_a\<close>: line 263 ('the downloaded file is abnormally small (');
  \<^item> \<open>txt_too_small_b\<close>: line 263 ('bytes), the download may be incomplete or truncated');
  \<^item> \<open>txt_missing\<close>: line 268 ('the downloaded file does not exist:');
  \<^item> \<open>txt_check_failed\<close>: line 270 ('checking the file failed:');
  \<^item> \<open>txt_wait_failed\<close>: line 278 ('waiting for the file to be ready failed:');
  \<^item> \<open>txt_unpack_failed\<close>: line 292 ('extraction failed:');
  \<^item> \<open>txt_archive_empty\<close>: line 304 ('the archive path must not be empty');
  \<^item> \<open>txt_destination_empty\<close>: line 307 ('the destination directory must not be empty');
  \<^item> \<open>txt_exit_code\<close>: line 333 ('7-zip exit code');
  \<^item> \<open>txt_no_recursive_rm\<close>: uninstall.js line 60 ('this Node.js version cannot delete a directory recursively');
\<close>

definition txt_retry_exhausted_a :: string where
  "txt_retry_exhausted_a = [CHR 0xE7, CHR 0xBB, CHR 0x8F, CHR 0xE8, CHR 0xBF, CHR 0x87]
     @ '' ''"

definition txt_retry_exhausted_b :: string where
  "txt_retry_exhausted_b = '' '' @ [CHR 0xE6, CHR 0xAC, CHR 0xA1, CHR 0xE5, CHR 0xB0,
     CHR 0x9D, CHR 0xE8, CHR 0xAF, CHR 0x95, CHR 0xE5, CHR 0x90, CHR 0x8E, CHR 0xE6, CHR 0x93,
     CHR 0x8D, CHR 0xE4, CHR 0xBD, CHR 0x9C, CHR 0xE4, CHR 0xBB, CHR 0x8D, CHR 0xE7, CHR 0x84,
     CHR 0xB6, CHR 0xE5, CHR 0xA4, CHR 0xB1, CHR 0xE8, CHR 0xB4, CHR 0xA5] @ '': ''"

definition txt_not_ready_a :: string where
  "txt_not_ready_a = [CHR 0xE6, CHR 0x96, CHR 0x87, CHR 0xE4, CHR 0xBB, CHR 0xB6, CHR 0xE5,
     CHR 0x9C, CHR 0xA8] @ '' ''"

definition txt_not_ready_b :: string where
  "txt_not_ready_b = '' '' @ [CHR 0xE6, CHR 0xAC, CHR 0xA1, CHR 0xE5, CHR 0xB0, CHR 0x9D,
     CHR 0xE8, CHR 0xAF, CHR 0x95, CHR 0xE5, CHR 0x90, CHR 0x8E, CHR 0xE4, CHR 0xBB, CHR 0x8D,
     CHR 0xE4, CHR 0xB8, CHR 0x8D, CHR 0xE5, CHR 0x8F, CHR 0xAF, CHR 0xE7, CHR 0x94, CHR 0xA8]
     @ '': ''"

definition txt_bad_status :: string where
  "txt_bad_status = [CHR 0xE4, CHR 0xB8, CHR 0x8B, CHR 0xE8, CHR 0xBD, CHR 0xBD, CHR 0xE5,
     CHR 0xA4, CHR 0xB1, CHR 0xE8, CHR 0xB4, CHR 0xA5] @ '': '' @ [CHR 0xE7, CHR 0x8A,
     CHR 0xB6, CHR 0xE6, CHR 0x80, CHR 0x81, CHR 0xE7, CHR 0xA0, CHR 0x81] @ '' ''"

definition txt_url_unset :: string where
  "txt_url_unset = [CHR 0xE6, CHR 0x9C, CHR 0xAA, CHR 0xE8, CHR 0xAE, CHR 0xBE, CHR 0xE7,
     CHR 0xBD, CHR 0xAE, CHR 0xE4, CHR 0xB8, CHR 0x8B, CHR 0xE8, CHR 0xBD, CHR 0xBD, CHR 0xE5,
     CHR 0x9F, CHR 0xBA, CHR 0xE7, CHR 0xA1, CHR 0x80] @ '' URL (AILY_ZIP_URL '' @ [CHR 0xE7,
     CHR 0x8E, CHR 0xAF, CHR 0xE5, CHR 0xA2, CHR 0x83, CHR 0xE5, CHR 0x8F, CHR 0x98, CHR 0xE9,
     CHR 0x87, CHR 0x8F, CHR 0xE6, CHR 0x9C, CHR 0xAA, CHR 0xE8, CHR 0xAE, CHR 0xBE, CHR 0xE7,
     CHR 0xBD, CHR 0xAE] @ '')''"

definition txt_mkdir_a :: string where
  "txt_mkdir_a = [CHR 0xE6, CHR 0x97, CHR 0xA0, CHR 0xE6, CHR 0xB3, CHR 0x95, CHR 0xE5,
     CHR 0x88, CHR 0x9B, CHR 0xE5, CHR 0xBB, CHR 0xBA, CHR 0xE7, CHR 0x9B, CHR 0xAE, CHR 0xE6,
     CHR 0xA0, CHR 0x87, CHR 0xE7, CHR 0x9B, CHR 0xAE, CHR 0xE5, CHR 0xBD, CHR 0x95] @ '': ''"

definition txt_mkdir_b :: string where
  "txt_mkdir_b = '', '' @ [CHR 0xE9, CHR 0x94, CHR 0x99, CHR 0xE8, CHR 0xAF, CHR 0xAF]
     @ '': ''"

definition txt_download_failed :: string where
  "txt_download_failed = [CHR 0xE6, CHR 0x97, CHR 0xA0, CHR 0xE6, CHR 0xB3, CHR 0x95,
     CHR 0xE4, CHR 0xB8, CHR 0x8B, CHR 0xE8, CHR 0xBD, CHR 0xBD] @ ''zip'' @ [CHR 0xE6,
     CHR 0x96, CHR 0x87, CHR 0xE4, CHR 0xBB, CHR 0xB6] @ '': ''"

definition txt_too_small_a :: string where
  "txt_too_small_a = [CHR 0xE4, CHR 0xB8, CHR 0x8B, CHR 0xE8, CHR 0xBD, CHR 0xBD, CHR 0xE7,
     CHR 0x9A, CHR 0x84, CHR 0xE6, CHR 0x96, CHR 0x87, CHR 0xE4, CHR 0xBB, CHR 0xB6, CHR 0xE5,
     CHR 0xBC, CHR 0x82, CHR 0xE5, CHR 0xB8, CHR 0xB8, CHR 0xE5, CHR 0xB0, CHR 0x8F] @ '' (''"

definition txt_too_small_b :: string where
  "txt_too_small_b = '' '' @ [CHR 0xE5, CHR 0xAD, CHR 0x97, CHR 0xE8, CHR 0x8A, CHR 0x82]
     @ '')'' @ [CHR 0xEF, CHR 0xBC, CHR 0x8C, CHR 0xE5, CHR 0x8F, CHR 0xAF, CHR 0xE8,
     CHR 0x83, CHR 0xBD, CHR 0xE4, CHR 0xB8, CHR 0x8B, CHR 0xE8, CHR 0xBD, CHR 0xBD, CHR 0xE4,
     CHR 0xB8, CHR 0x8D, CHR 0xE5, CHR 0xAE, CHR 0x8C, CHR 0xE6, CHR 0x95, CHR 0xB4, CHR 0xE6,
     CHR 0x88, CHR 0x96, CHR 0xE8, CHR 0xA2, CHR 0xAB, CHR 0xE6, CHR 0x88, CHR 0xAA, CHR 0xE6,
     CHR 0x96, CHR 0xAD]"

definition txt_missing :: string where
  "txt_missing = [CHR 0xE4, CHR 0xB8, CHR 0x8B, CHR 0xE8, CHR 0xBD, CHR 0xBD, CHR 0xE7,
     CHR 0x9A, CHR 0x84, CHR 0xE6, CHR 0x96, CHR 0x87, CHR 0xE4, CHR 0xBB, CHR 0xB6, CHR 0xE4,
     CHR 0xB8, CHR 0x8D, CHR 0xE5, CHR 0xAD, CHR 0x98, CHR 0xE5, CHR 0x9C, CHR 0xA8] @ '': ''"

definition txt_check_failed :: string where
  "txt_check_failed = [CHR 0xE6, CHR 0xA3, CHR 0x80, CHR 0xE6, CHR 0x9F, CHR 0xA5, CHR 0xE6,
     CHR 0x96, CHR 0x87, CHR 0xE4, CHR 0xBB, CHR 0xB6, CHR 0xE5, CHR 0xA4, CHR 0xB1, CHR 0xE8,
     CHR 0xB4, CHR 0xA5] @ '': ''"

definition txt_wait_failed :: string where
  "txt_wait_failed = [CHR 0xE7, CHR 0xAD, CHR 0x89, CHR 0xE5, CHR 0xBE, CHR 0x85, CHR 0xE6,
     CHR 0x96, CHR 0x87, CHR 0xE4, CHR 0xBB, CHR 0xB6, CHR 0xE5, CHR 0xB0, CHR 0xB1, CHR 0xE7,
     CHR 0xBB, CHR 0xAA, CHR 0xE5, CHR 0xA4, CHR 0xB1, CHR 0xE8, CHR 0xB4, CHR 0xA5] @ '': ''"

definition txt_unpack_failed :: string where
  "txt_unpack_failed = [CHR 0xE8, CHR 0xA7, CHR 0xA3, CHR 0xE5, CHR 0x8E, CHR 0x8B, CHR 0xE5,
     CHR 0xA4, CHR 0xB1, CHR 0xE8, CHR 0xB4, CHR 0xA5] @ '': ''"

definition txt_archive_empty :: string where
  "txt_archive_empty = [CHR 0xE5, CHR 0x8E, CHR 0x8B, CHR 0xE7, CHR 0xBC, CHR 0xA9, CHR 0xE6,
     CHR 0x96, CHR 0x87, CHR 0xE4, CHR 0xBB, CHR 0xB6, CHR 0xE8, CHR 0xB7, CHR 0xAF, CHR 0xE5,
     CHR 0xBE, CHR 0x84, CHR 0xE4, CHR 0xB8, CHR 0x8D, CHR 0xE8, CHR 0x83, CHR 0xBD, CHR 0xE4,
     CHR 0xB8, CHR 0xBA, CHR 0xE7, CHR 0xA9, CHR 0xBA]"

definition txt_destination_empty :: string where
  "txt_destination_empty = [CHR 0xE7, CHR 0x9B, CHR 0xAE, CHR 0xE6, CHR 0xA0, CHR 0x87,
     CHR 0xE7, CHR 0x9B, CHR 0xAE, CHR 0xE5, CHR 0xBD, CHR 0x95, CHR 0xE4, CHR 0xB8, CHR 0x8D,
     CHR 0xE8, CHR 0x83, CHR 0xBD, CHR 0xE4, CHR 0xB8, CHR 0xBA, CHR 0xE7, CHR 0xA9, CHR 0xBA]"

definition txt_exit_code :: string where
  "txt_exit_code = ''7-zip '' @ [CHR 0xE9, CHR 0x80, CHR 0x80, CHR 0xE5, CHR 0x87, CHR 0xBA,
     CHR 0xE7, CHR 0xA0, CHR 0x81] @ '' ''"

definition txt_no_recursive_rm :: string where
  "txt_no_recursive_rm = [CHR 0xE5, CHR 0xBD, CHR 0x93, CHR 0xE5, CHR 0x89, CHR 0x8D]
     @ ''Node.js'' @ [CHR 0xE7, CHR 0x89, CHR 0x88, CHR 0xE6, CHR 0x9C, CHR 0xAC, CHR 0xE4,
     CHR 0xB8, CHR 0x8D, CHR 0xE6, CHR 0x94, CHR 0xAF, CHR 0xE6, CHR 0x8C, CHR 0x81, CHR 0xE9,
     CHR 0x80, CHR 0x92, CHR 0xE5, CHR 0xBD, CHR 0x92, CHR 0xE5, CHR 0x88, CHR 0xA0, CHR 0xE9,
     CHR 0x99, CHR 0xA4, CHR 0xE7, CHR 0x9B, CHR 0xAE, CHR 0xE5, CHR 0xBD, CHR 0x95]"

text \<open>The template literals that build an error message.\<close>

definition msg_retry_exhausted :: "int \<Rightarrow> string \<Rightarrow> string" where
  "msg_retry_exhausted maxRetries lastMessage =
     txt_retry_exhausted_a @ js_num maxRetries @ txt_retry_exhausted_b @ lastMessage"

definition msg_not_ready :: "int \<Rightarrow> string \<Rightarrow> string" where
  "msg_not_ready maxAttempts filePath =
     txt_not_ready_a @ js_num maxAttempts @ txt_not_ready_b @ filePath"

definition msg_bad_status :: "nat \<Rightarrow> string" where
  "msg_bad_status statusCode = txt_bad_status @ js_num (int statusCode)"

definition msg_too_small :: "nat \<Rightarrow> string" where
  "msg_too_small n = txt_too_small_a @ js_num (int n) @ txt_too_small_b"

text \<open>The exit code of a child process in a template literal: a number, or \<open>null\<close>.\<close>

definition exit_code_text :: "nat option \<Rightarrow> string" where
  "exit_code_text c = (case c of None \<Rightarrow> ''null'' | Some n \<Rightarrow> js_num (int n))"

definition msg_exit_code :: "nat option \<Rightarrow> string \<Rightarrow> string" where
  "msg_exit_code c output = txt_exit_code @ exit_code_text c @ [CHR 0x0A] @ output"

section \<open>The process and its environment\<close>

text \<open>
  What the scripts write to the console. Each constructor is one call site of
  \<open>console.log\<close>, \<open>console.warn\<close> or \<open>console.error\<close>, with the values
  the call interpolates (install script, by line; the last nine are uninstall.js).
  The download progress written to standard output (lines 143 to 158) is left out: it
  formats floating point numbers and no other code reads it.
\<close>

datatype log =
    RetryFailed int int string  \<comment> \<open>line 50: attempt, maxRetries, error.message\<close>
  | RetryWaiting nat  \<comment> \<open>line 53: retryDelay\<close>
  | FileNotReady int int  \<comment> \<open>line 75: attempts, maxAttempts\<close>
  | CloseFailed string  \<comment> \<open>line 87: closeErr.message\<close>
  | FileReady  \<comment> \<open>line 89\<close>
  | Downloading string  \<comment> \<open>line 115: downloadUrl\<close>
  | ArchivePresent string  \<comment> \<open>line 119: zipFileName\<close>
  | BlankLine  \<comment> \<open>line 165\<close>
  | Downloaded string  \<comment> \<open>line 169: zipFileName\<close>
  | SrcDirMissing string  \<comment> \<open>line 204: srcDir\<close>
  | DestDirUnset  \<comment> \<open>line 210\<close>
  | TargetExists string  \<comment> \<open>line 220: targetPath\<close>
  | SkipInstall  \<comment> \<open>line 221\<close>
  | ToolMissing string  \<comment> \<open>line 227: the path of the archive tool\<close>
  | CreatingDestDir string  \<comment> \<open>lines 232 and 242: destDir\<close>
  | FileSize nat  \<comment> \<open>line 265: stats.size\<close>
  | Extracted string string  \<comment> \<open>line 286: fileName, destDir\<close>
  | Fatal js_error  \<comment> \<open>line 295: the error caught by extractArchives\<close>
  | RunCommand string "string list"  \<comment> \<open>line 311: the archive tool and its arguments\<close>
  | ToolError js_error  \<comment> \<open>line 325\<close>
  | RunFailed js_error  \<comment> \<open>line 342\<close>
  | UninstallBegin string string  \<comment> \<open>uninstall.js line 79: packageName, packageVersion\<close>
  | Step1  \<comment> \<open>line 85\<close>
  | FileRemoved string  \<comment> \<open>line 33\<close>
  | FileAbsent string  \<comment> \<open>line 36\<close>
  | FileRemoveFailed string string  \<comment> \<open>line 38: filePath, err.message\<close>
  | DirRemoved string  \<comment> \<open>line 62\<close>
  | DirAbsent string  \<comment> \<open>line 65\<close>
  | DirRemoveFailed string string  \<comment> \<open>line 67: dirPath, err.message\<close>
  | Step2Skipped  \<comment> \<open>line 90\<close>
  | Step2 string  \<comment> \<open>line 92: compilerPath\<close>
  | UninstallDone string  \<comment> \<open>line 96: packageName\<close>
  | UninstallFailed string  \<comment> \<open>line 105: err.message\<close>

datatype level = LOG | WARN | ERROR

text \<open>
  The file system: a path names a file or a directory, each with a size. Apart from a
  missing path, an operation can be refused by the operating system (a permission, a
  lock): \<open>refused\<close> gives the error the operation then raises.
\<close>

datatype entry = File (bytes: nat) | Dir (bytes: nat)

datatype fs_op = Unlink | Rm | Rmdir | Stat | Mkdir

text \<open>
  What the world answers to the program. An HTTP request: the call throws (Node.js does
  not accept the URL), or the request emits \<open>error\<close>, or a response arrives with its
  status code, its content length (0 when the header is absent) and the way the transfer
  into the file stream ends: \<open>finish\<close> after \<open>n\<close> bytes, or \<open>error\<close> of the
  file stream after \<open>n\<close> bytes. A child process: the \<open>error\<close> event, or the
  \<open>exit\<close> event with the exit code (\<open>None\<close> for \<open>null\<close>) and the chunks
  of standard output and standard error received until then. Only the events the script
  listens to are answers here.
\<close>

datatype transfer = Finished nat | StreamError nat js_error

datatype http_outcome = Thrown js_error | RequestError js_error | Response nat nat transfer

datatype spawn_outcome = SpawnError js_error | Exit "nat option" "string list"

text \<open>
  The state of the process and of what it acts on. The answers of the world are given
  per call, in the order of the calls: \<open>open_answer w i p\<close> is the outcome of the
  \<open>i\<close>-th \<open>fs.open\<close> (counted from 0) when it opens \<open>p\<close>, likewise for requests
  and child processes; the calls made so far are recorded. The scripts run one step at a
  time (each asynchronous call is awaited before the next is made), so a run is a sequence
  of states.
\<close>

record world =
  fs :: "string \<rightharpoonup> entry"
  refused :: "fs_op \<Rightarrow> string \<Rightarrow> js_error option"
  console :: "(level \<times> log) list"
  timers :: "nat list"
  opened :: "string list"
  open_answer :: "nat \<Rightarrow> string \<Rightarrow> js_error + nat"
  close_answer :: "nat \<Rightarrow> js_error option"
  requested :: "string list"
  http_answer :: "nat \<Rightarrow> string \<Rightarrow> http_outcome"
  spawned :: "(string \<times> string list) list"
  spawn_answer :: "nat \<Rightarrow> spawn_outcome"

definition console_log :: "log \<Rightarrow> 'z world_scheme \<Rightarrow> 'z world_scheme" where
  "console_log l w = w\<lparr>console := console w @ [(LOG, l)]\<rparr>"

definition console_warn :: "log \<Rightarrow> 'z world_scheme \<Rightarrow> 'z world_scheme" where
  "console_warn l w = w\<lparr>console := console w @ [(WARN, l)]\<rparr>"

definition console_error :: "log \<Rightarrow> 'z world_scheme \<Rightarrow> 'z world_scheme" where
  "console_error l w = w\<lparr>console := console w @ [(ERROR, l)]\<rparr>"

text \<open>Waiting for a timer of \<open>d\<close> milliseconds.\<close>

definition setTimeout :: "nat \<Rightarrow> 'z world_scheme \<Rightarrow> 'z world_scheme" where
  "setTimeout d w = w\<lparr>timers := timers w @ [d]\<rparr>"

text \<open>
  An asynchronous operation: run in a state of the world, it settles with an error
  (\<open>Inl\<close>, the promise rejects) or a value (\<open>Inr\<close>) and leaves a new state.
\<close>

type_synonym ('a, 'z) async = "'z world_scheme \<Rightarrow> (js_error + 'a) \<times> 'z world_scheme"

section \<open>withRetry\<close>

text \<open>
  Besides its result, the model of \<open>withRetry\<close> returns what the loop itself did, in
  order: each call of the operation and each delay it waited for.
\<close>

datatype retry_step = Invoked | Delayed nat

text \<open>The body of the catch block (lines 49 to 55): the new state and the delay taken.\<close>

definition catch_block ::
  "int \<Rightarrow> nat \<Rightarrow> int \<Rightarrow> js_error \<Rightarrow> 'z world_scheme \<Rightarrow> retry_step list \<times> 'z world_scheme" where
  "catch_block maxRetries retryDelay attempt error w =
     (let w1 = console_log (RetryFailed attempt maxRetries (message error)) w in
      if attempt < maxRetries
      then ([Delayed retryDelay], setTimeout retryDelay (console_log (RetryWaiting retryDelay) w1))
      else ([], w1))"

text \<open>
  The throw after the loop (line 59). The template literal reads \<open>lastError.message\<close>;
  when no attempt was made \<open>lastError\<close> is still \<open>undefined\<close> and the read throws.
\<close>

definition exhausted :: "int \<Rightarrow> js_error option \<Rightarrow> js_error" where
  "exhausted maxRetries lastError =
     (case lastError of
        None \<Rightarrow> undefined_property ''message''
      | Some e \<Rightarrow> new_Error (msg_retry_exhausted maxRetries (message e)))"

function retry_loop ::
  "('a, 'z) async \<Rightarrow> int \<Rightarrow> nat \<Rightarrow> int \<Rightarrow> js_error option \<Rightarrow> retry_step list \<Rightarrow> 'z world_scheme
     \<Rightarrow> ((js_error + 'a) \<times> retry_step list) \<times> 'z world_scheme" where
  "retry_loop fn maxRetries retryDelay attempt lastError steps w =
     (if attempt \<le> maxRetries then
        (case fn w of
           (Inr v, w1) \<Rightarrow> ((Inr v, steps @ [Invoked]), w1)
         | (Inl error, w1) \<Rightarrow>
             (case catch_block maxRetries retryDelay attempt error w1 of
                (waited, w2) \<Rightarrow>
                  retry_loop fn maxRetries retryDelay (attempt + 1) (Some error)
                    (steps @ Invoked # waited) w2))
      else ((Inl (exhausted maxRetries lastError), steps), w))"
  by pat_completeness auto
termination
  by (relation "measure (\<lambda>(fn, maxRetries, retryDelay, attempt, rest). nat (maxRetries + 1 - attempt))") auto

declare retry_loop.simps [simp del]

definition withRetry ::
  "('a, 'z) async \<Rightarrow> int \<Rightarrow> nat \<Rightarrow> 'z world_scheme
     \<Rightarrow> ((js_error + 'a) \<times> retry_step list) \<times> 'z world_scheme" where
  "withRetry fn maxRetries retryDelay w = retry_loop fn maxRetries retryDelay 1 None [] w"

definition invocations :: "retry_step list \<Rightarrow> nat" where
  "invocations steps = length (filter (\<lambda>s. s = Invoked) steps)"

section \<open>File system, network and child processes\<close>

text \<open>
  The errors of the file system functions carry a \<open>code\<close>; the scripts compare it
  with \<open>ENOENT\<close>, \<open>EBUSY\<close> and \<open>EPERM\<close> and read nothing else but the message.
\<close>

definition fs_error :: "string \<Rightarrow> string \<Rightarrow> string \<Rightarrow> string \<Rightarrow> js_error" where
  "fs_error c what syscall p =
     JsError ''Error'' (c @ '': '' @ what @ '', '' @ syscall @ '' '' @ [CHR 0x27] @ p @ [CHR 0x27])
       (Some c)"

definition enoent :: "string \<Rightarrow> string \<Rightarrow> js_error" where
  "enoent syscall p = fs_error ''ENOENT'' ''no such file or directory'' syscall p"

text \<open>\<open>fs.existsSync\<close>: false for the empty path and for a path that names nothing.\<close>

definition existsSync :: "string \<Rightarrow> 'z world_scheme \<Rightarrow> bool" where
  "existsSync p w = (p \<noteq> [] \<and> fs w p \<noteq> None)"

text \<open>\<open>fs.statSync\<close>: the size of the entry, or the error thrown.\<close>

definition statSync :: "string \<Rightarrow> 'z world_scheme \<Rightarrow> js_error + nat" where
  "statSync p w =
     (case fs w p of
        None \<Rightarrow> Inl (enoent ''stat'' p)
      | Some e \<Rightarrow> (case refused w Stat p of Some err \<Rightarrow> Inl err | None \<Rightarrow> Inr (bytes e)))"

text \<open>
  \<open>fs.mkdirSync\<close> with \<open>recursive: true\<close>: an existing directory is left as it
  is. Paths are names here: the parents of the new directory are not entries of their own.
\<close>

definition mkdirSync :: "string \<Rightarrow> 'z world_scheme \<Rightarrow> js_error option \<times> 'z world_scheme" where
  "mkdirSync p w =
     (case refused w Mkdir p of
        Some err \<Rightarrow> (Some err, w)
      | None \<Rightarrow>
          (case fs w p of
             None \<Rightarrow> (None, w\<lparr>fs := (fs w)(p \<mapsto> Dir 0)\<rparr>)
           | Some (Dir n) \<Rightarrow> (None, w)
           | Some (File n) \<Rightarrow> (Some (fs_error ''EEXIST'' ''file already exists'' ''mkdir'' p), w)))"

text \<open>
  Removing a file, as \<open>fs.unlink\<close> and \<open>fs.unlinkSync\<close> do: the error, if any,
  and the new state. A directory is never removed this way (the code of that error
  depends on the platform; the one of Linux is used).
\<close>

definition unlink :: "string \<Rightarrow> 'z world_scheme \<Rightarrow> js_error option \<times> 'z world_scheme" where
  "unlink p w =
     (case fs w p of
        None \<Rightarrow> (Some (enoent ''unlink'' p), w)
      | Some (Dir n) \<Rightarrow> (Some (fs_error ''EISDIR'' ''illegal operation on a directory'' ''unlink'' p), w)
      | Some (File n) \<Rightarrow>
          (case refused w Unlink p of
             Some err \<Rightarrow> (Some err, w)
           | None \<Rightarrow> (None, w\<lparr>fs := (fs w)(p := None)\<rparr>)))"

text \<open>
  \<open>fs.rmSync\<close> with \<open>recursive: true, force: true\<close>. With \<open>force\<close>, Node.js
  raises no error when the path does not exist. Only the entry of the path itself is
  removed here, since paths are names.
\<close>

definition rmSync_recursive_force ::
  "string \<Rightarrow> 'z world_scheme \<Rightarrow> js_error option \<times> 'z world_scheme" where
  "rmSync_recursive_force p w =
     (case fs w p of
        None \<Rightarrow> (None, w)
      | Some e \<Rightarrow>
          (case refused w Rm p of
             Some err \<Rightarrow> if code err = Some ''ENOENT'' then (None, w) else (Some err, w)
           | None \<Rightarrow> (None, w\<lparr>fs := (fs w)(p := None)\<rparr>)))"

text \<open>
  \<open>fs.rmdirSync\<close> with \<open>recursive: true\<close>, the fallback of a Node.js that has no
  \<open>fs.rmSync\<close>. Whether a missing path is an error there depends on the version, so
  every error of this call, \<open>ENOENT\<close> included, is the environment's answer.
\<close>

definition rmdirSync_recursive ::
  "string \<Rightarrow> 'z world_scheme \<Rightarrow> js_error option \<times> 'z world_scheme" where
  "rmdirSync_recursive p w =
     (case refused w Rmdir p of
        Some err \<Rightarrow> (Some err, w)
      | None \<Rightarrow> (None, w\<lparr>fs := (fs w)(p := None)\<rparr>))"

text \<open>
  \<open>fs.createWriteStream\<close> creates the file, empty; opening it is taken to succeed.
  \<open>written\<close> is the file after \<open>n\<close> bytes went through the stream.
\<close>

definition createWriteStream :: "string \<Rightarrow> 'z world_scheme \<Rightarrow> 'z world_scheme" where
  "createWriteStream p w = w\<lparr>fs := (fs w)(p \<mapsto> File 0)\<rparr>"

definition written :: "string \<Rightarrow> nat \<Rightarrow> 'z world_scheme \<Rightarrow> 'z world_scheme" where
  "written p n w = w\<lparr>fs := (fs w)(p \<mapsto> File n)\<rparr>"

text \<open>\<open>fs.open\<close> and \<open>fs.close\<close>: the answer of the environment; the call is recorded.\<close>

definition fs_open :: "string \<Rightarrow> 'z world_scheme \<Rightarrow> (js_error + nat) \<times> 'z world_scheme" where
  "fs_open p w = (open_answer w (length (opened w)) p, w\<lparr>opened := opened w @ [p]\<rparr>)"

definition fs_close :: "nat \<Rightarrow> 'z world_scheme \<Rightarrow> js_error option \<times> 'z world_scheme" where
  "fs_close fd w = (close_answer w fd, w)"

text \<open>
  \<open>http.get\<close> or \<open>https.get\<close> (line 127 picks the module by the prefix of the URL):
  the request is recorded and the environment answers.
\<close>

definition http_get :: "string \<Rightarrow> 'z world_scheme \<Rightarrow> http_outcome \<times> 'z world_scheme" where
  "http_get url w = (http_answer w (length (requested w)) url, w\<lparr>requested := requested w @ [url]\<rparr>)"

text \<open>\<open>child_process.spawn\<close>: the command is recorded and the environment answers.\<close>

definition spawn ::
  "string \<Rightarrow> string list \<Rightarrow> 'z world_scheme \<Rightarrow> spawn_outcome \<times> 'z world_scheme" where
  "spawn cmd args w = (spawn_answer w (length (spawned w)), w\<lparr>spawned := spawned w @ [(cmd, args)]\<rparr>)"

section \<open>waitForFileReady\<close>

text \<open>
  A promise is settled by the first call of \<open>resolve\<close> or \<open>reject\<close> in its
  executor; later calls have no effect. The model of \<open>waitForFileReady\<close> returns every
  such call, in order.
\<close>

datatype 'a settle = Resolve 'a | Reject js_error

fun first_settled :: "'a settle list \<Rightarrow> (js_error + 'a) option" where
  "first_settled [] = None"
| "first_settled (Resolve v # rest) = Some (Inr v)"
| "first_settled (Reject e # rest) = Some (Inl e)"

definition transient_code :: "js_error \<Rightarrow> bool" where
  "transient_code err =
     (code err = Some ''EBUSY'' \<or> code err = Some ''ENOENT'' \<or> code err = Some ''EPERM'')"

text \<open>
  \<open>checkFile\<close> (lines 67 to 94); \<open>attempts\<close> is the counter before the increment
  of line 68.
\<close>

function checkFile ::
  "string \<Rightarrow> int \<Rightarrow> nat \<Rightarrow> int \<Rightarrow> 'z world_scheme \<Rightarrow> unit settle list \<times> 'z world_scheme" where
  "checkFile filePath maxAttempts interval attempts w =
     (case fs_open filePath w of
        (Inl err, w1) \<Rightarrow>
          if transient_code err then
            if attempts + 1 < maxAttempts then
              checkFile filePath maxAttempts interval (attempts + 1)
                (setTimeout interval (console_log (FileNotReady (attempts + 1) maxAttempts) w1))
            else ([Reject (new_Error (msg_not_ready maxAttempts filePath))], w1)
          else ([Reject err], w1)
      | (Inr fd, w1) \<Rightarrow>
          (case fs_close fd w1 of
             (Some closeErr, w2) \<Rightarrow>
               ([Resolve ()], console_log FileReady (console_warn (CloseFailed (message closeErr)) w2))
           | (None, w2) \<Rightarrow> ([Resolve ()], console_log FileReady w2)))"
  by pat_completeness auto
termination
  by (relation "measure (\<lambda>(filePath, maxAttempts, interval, attempts, w). nat (maxAttempts - attempts))")
    auto

declare checkFile.simps [simp del]

definition waitForFileReady ::
  "string \<Rightarrow> int \<Rightarrow> nat \<Rightarrow> 'z world_scheme \<Rightarrow> unit settle list \<times> 'z world_scheme" where
  "waitForFileReady filePath maxAttempts interval w = checkFile filePath maxAttempts interval 0 w"

section \<open>Configuration\<close>

text \<open>
  What the scripts read once when they are loaded: the directory of the script, three
  environment variables, the platform and architecture of the host, the name and version
  of \<open>package.json\<close>. \<open>path.join\<close> and the presence of \<open>fs.rmSync\<close> and
  \<open>fs.rmdirSync\<close> belong to the Node.js the script runs on and are parameters too.
\<close>

record config =
  dirname :: string
  AILY_COMPILERS_PATH :: "string option"
  AILY_7ZA_PATH :: "string option"
  AILY_ZIP_URL :: "string option"
  os_platform :: string
  os_arch :: string
  package_name :: string
  package_version :: string
  path_join :: "string \<Rightarrow> string \<Rightarrow> string"
  has_rmSync :: bool
  has_rmdirSync :: bool

text \<open>\<open>x || ""\<close> for an environment variable: unset and empty both give the empty string.\<close>

definition or_empty :: "string option \<Rightarrow> string" where
  "or_empty x = (case x of None \<Rightarrow> [] | Some s \<Rightarrow> s)"

definition getOSType :: "config \<Rightarrow> string \<times> string" where
  "getOSType c = (os_platform c, if prefix ''arm'' (os_arch c) then ''arm'' else ''intel'')"

definition getZipBaseUrl :: "config \<Rightarrow> string" where
  "getZipBaseUrl c =
     (case getOSType c of
        (platform, arch) \<Rightarrow> or_empty (AILY_ZIP_URL c) @ ''/compilers/'' @ platform @ ''/'' @ arch)"

definition srcDir :: "config \<Rightarrow> string" where
  "srcDir c = dirname c"

definition destDir :: "config \<Rightarrow> string" where
  "destDir c = or_empty (AILY_COMPILERS_PATH c)"

definition sevenZaPath :: "config \<Rightarrow> string" where
  "sevenZaPath c = or_empty (AILY_7ZA_PATH c)"

definition zipDownloadBaseUrl :: "config \<Rightarrow> string" where
  "zipDownloadBaseUrl c = getZipBaseUrl c"

definition package_prefix :: string where
  "package_prefix = ''@aily-project/compiler-''"

definition getZipFileName :: "config \<Rightarrow> string" where
  "getZipFileName c =
     replace_first package_prefix [] (package_name c) @ ''@'' @ package_version c @ ''.7z''"

section \<open>getZipFile\<close>

text \<open>
  The callback of \<open>fs.unlink\<close> at lines 132, 178 and 182 is empty: the outcome of the
  removal is ignored. The removal is asynchronous in the script; here it has taken place
  when the promise rejects.
\<close>

definition unlink_ignored :: "string \<Rightarrow> 'z world_scheme \<Rightarrow> 'z world_scheme" where
  "unlink_ignored p w = snd (unlink p w)"

text \<open>Line 112 and line 116: where the archive comes from and where it is written.\<close>

definition downloadUrl :: "config \<Rightarrow> string" where
  "downloadUrl c = zipDownloadBaseUrl c @ ''/'' @ getZipFileName c"

definition downloadPath :: "config \<Rightarrow> string" where
  "downloadPath c = path_join c (dirname c) (getZipFileName c)"

definition getZipFile :: "config \<Rightarrow> (string, 'z) async" where
  "getZipFile c w =
     (let zipFileName = getZipFileName c;
          w1 = console_log (Downloading (downloadUrl c)) w;
          filePath = downloadPath c
      in
        if existsSync filePath w1 then (Inr zipFileName, console_log (ArchivePresent zipFileName) w1)
        else
          (case http_get (downloadUrl c) (createWriteStream filePath w1) of
             (Thrown err, w2) \<Rightarrow> (Inl err, w2)
           | (RequestError err, w2) \<Rightarrow> (Inl err, unlink_ignored filePath w2)
           | (Response statusCode totalSize body, w2) \<Rightarrow>
               if statusCode \<noteq> 200
               then (Inl (new_Error (msg_bad_status statusCode)), unlink_ignored filePath w2)
               else
                 (case body of
                    Finished n \<Rightarrow>
                      (let w3 = written filePath n w2;
                           w4 = (if totalSize > 0 then console_log BlankLine w3 else w3);
                           w5 = console_log (Downloaded zipFileName) w4
                       in (Inr zipFileName, setTimeout 200 w5))
                  | StreamError n err \<Rightarrow>
                      (Inl err, unlink_ignored filePath (written filePath n w2)))))"

section \<open>unpack\<close>

definition unpack :: "config \<Rightarrow> string \<Rightarrow> string \<Rightarrow> (unit, 'z) async" where
  "unpack c archivePath destination w =
     (if archivePath = [] then (Inl (new_Error txt_archive_empty), w)
      else if destination = [] then (Inl (new_Error txt_destination_empty), w)
      else
        (let args = [''x'', archivePath, ''-y'', ''-o'' @ destination];
             w1 = console_log (RunCommand (sevenZaPath c) args) w
         in
           case spawn (sevenZaPath c) args w1 of
             (SpawnError err, w2) \<Rightarrow> (Inl err, console_error (ToolError err) w2)
           | (Exit exitCode chunks, w2) \<Rightarrow>
               if exitCode = Some 0 then (Inr (), w2)
               else (Inl (new_Error (msg_exit_code exitCode (concat chunks))), w2)))"

section \<open>extractArchives\<close>

text \<open>
  How a run of \<open>extractArchives\<close> ends: the function returns, or it calls
  \<open>process.exit\<close>, or it waits for a promise that never settles. Node.js ends a
  process whose work is done with status 0, so only \<open>process.exit\<close> gives another one.
\<close>

datatype outcome = Returned | Exited nat | Unsettled

fun exit_status :: "outcome \<Rightarrow> nat" where
  "exit_status Returned = 0"
| "exit_status (Exited n) = n"
| "exit_status Unsettled = 0"

text \<open>Lines 231 to 234: the directory is made outside any inner try.\<close>

definition ensure_destDir :: "config \<Rightarrow> 'z world_scheme \<Rightarrow> (js_error + unit) \<times> 'z world_scheme" where
  "ensure_destDir c w =
     (if \<not> existsSync (destDir c) w then
        (case mkdirSync (destDir c) (console_log (CreatingDestDir (destDir c)) w) of
           (Some err, w1) \<Rightarrow> (Inl err, w1)
         | (None, w1) \<Rightarrow> (Inr (), w1))
      else (Inr (), w))"

text \<open>Lines 241 to 248: the same again, the error wrapped.\<close>

definition ensure_destDir_wrapped ::
  "config \<Rightarrow> 'z world_scheme \<Rightarrow> (js_error + unit) \<times> 'z world_scheme" where
  "ensure_destDir_wrapped c w =
     (if \<not> existsSync (destDir c) w then
        (case mkdirSync (destDir c) (console_log (CreatingDestDir (destDir c)) w) of
           (Some mkdirErr, w1) \<Rightarrow>
             (Inl (new_Error (txt_mkdir_a @ destDir c @ txt_mkdir_b @ message mkdirErr)), w1)
         | (None, w1) \<Rightarrow> (Inr (), w1))
      else (Inr (), w))"

text \<open>
  Lines 259 to 272. The error thrown for a small file at line 263 is caught by the catch
  of line 266 like any error of \<open>statSync\<close>; it has no code, so line 270 wraps it.
\<close>

definition check_size :: "string \<Rightarrow> 'z world_scheme \<Rightarrow> (js_error + unit) \<times> 'z world_scheme" where
  "check_size zipFilePath w =
     (case (case statSync zipFilePath w of
              Inl err \<Rightarrow> (Inl err, w)
            | Inr n \<Rightarrow>
                if n < 1048576 then (Inl (new_Error (msg_too_small n)), w)
                else (Inr (), console_log (FileSize n) w)) of
        (Inl statErr, w1) \<Rightarrow>
          if code statErr = Some ''ENOENT'' then (Inl (new_Error (txt_missing @ zipFilePath)), w1)
          else (Inl (new_Error (txt_check_failed @ message statErr)), w1)
      | (Inr u, w1) \<Rightarrow> (Inr (), w1))"

text \<open>
  Lines 274 to 293, what follows the size check: the wait for the file, then the
  extraction under \<open>withRetry\<close>. \<open>None\<close> is a wait that never ends.
\<close>

definition wait_and_extract ::
  "config \<Rightarrow> string \<Rightarrow> string \<Rightarrow> 'z world_scheme \<Rightarrow> (js_error + unit) option \<times> 'z world_scheme" where
  "wait_and_extract c fileName zipFilePath w =
     (case waitForFileReady zipFilePath 20 500 w of
        (calls, w1) \<Rightarrow>
          (case first_settled calls of
             None \<Rightarrow> (None, w1)
           | Some (Inl waitErr) \<Rightarrow> (Some (Inl (new_Error (txt_wait_failed @ message waitErr))), w1)
           | Some (Inr u) \<Rightarrow>
               (case withRetry (unpack c zipFilePath (destDir c)) 3 2000 w1 of
                  ((Inl unpackErr, steps), w2) \<Rightarrow>
                    (Some (Inl (new_Error (txt_unpack_failed @ message unpackErr))), w2)
                | ((Inr v, steps), w2) \<Rightarrow>
                    (Some (Inr ()), console_log (Extracted fileName (destDir c)) w2))))"

text \<open>Lines 258 to 293: everything after the download.\<close>

definition after_download ::
  "config \<Rightarrow> string \<Rightarrow> 'z world_scheme \<Rightarrow> (js_error + unit) option \<times> 'z world_scheme" where
  "after_download c fileName w =
     (let zipFilePath = path_join c (dirname c) fileName in
      case check_size zipFilePath w of
        (Inl err, w1) \<Rightarrow> (Some (Inl err), w1)
      | (Inr u, w1) \<Rightarrow> wait_and_extract c fileName zipFilePath w1)"

text \<open>Lines 231 to 256: from the first \<open>mkdirSync\<close> to the download.\<close>

definition download :: "config \<Rightarrow> 'z world_scheme \<Rightarrow> (js_error + string) \<times> 'z world_scheme" where
  "download c w =
     (case ensure_destDir c w of
        (Inl err, w1) \<Rightarrow> (Inl err, w1)
      | (Inr u, w1) \<Rightarrow>
          if or_empty (AILY_ZIP_URL c) = [] then (Inl (new_Error txt_url_unset), w1)
          else
            (case ensure_destDir_wrapped c w1 of
               (Inl err, w2) \<Rightarrow> (Inl err, w2)
             | (Inr u, w2) \<Rightarrow>
                 (case withRetry (getZipFile c) 3 2000 w2 of
                    ((Inl downloadErr, steps), w3) \<Rightarrow>
                      (Inl (new_Error (txt_download_failed @ message downloadErr)), w3)
                  | ((Inr fileName, steps), w3) \<Rightarrow> (Inr fileName, w3))))"

text \<open>The catch of line 294: the error is logged and the process exits with status 1.\<close>

definition fatal :: "js_error \<Rightarrow> 'z world_scheme \<Rightarrow> outcome \<times> 'z world_scheme" where
  "fatal err w = (Exited 1, console_error (Fatal err) w)"

text \<open>Lines 215 to 217: the directory the archive unpacks to.\<close>

definition targetDirName :: "config \<Rightarrow> string" where
  "targetDirName c = replace_first ''.7z'' [] (getZipFileName c)"

definition targetPath :: "config \<Rightarrow> string" where
  "targetPath c = path_join c (destDir c) (targetDirName c)"

text \<open>
  How the try block ends once the download is over: an error goes to the catch of line
  294, a normal end returns.
\<close>

definition conclude ::
  "(js_error + unit) option \<times> 'z world_scheme \<Rightarrow> outcome \<times> 'z world_scheme" where
  "conclude r =
     (case r of
        (Some (Inl err), w) \<Rightarrow> fatal err w
      | (Some (Inr u), w) \<Rightarrow> (Returned, w)
      | (None, w) \<Rightarrow> (Unsettled, w))"

definition extractArchives :: "config \<Rightarrow> 'z world_scheme \<Rightarrow> outcome \<times> 'z world_scheme" where
  "extractArchives c w =
     (if \<not> existsSync (srcDir c) w then (Returned, console_error (SrcDirMissing (srcDir c)) w)
      else if destDir c = [] then (Returned, console_error DestDirUnset w)
      else if existsSync (targetPath c) w
      then (Returned, console_log SkipInstall (console_log (TargetExists (targetPath c)) w))
      else if \<not> existsSync (sevenZaPath c) w
      then (Returned, console_error (ToolMissing (sevenZaPath c)) w)
      else
        (case download c w of
           (Inl err, w1) \<Rightarrow> fatal err w1
         | (Inr fileName, w1) \<Rightarrow> conclude (after_download c fileName w1)))"

section \<open>uninstall.js\<close>

definition packageName :: "config \<Rightarrow> string" where
  "packageName c = replace_first package_prefix [] (package_name c)"

definition zipFileName :: "config \<Rightarrow> string" where
  "zipFileName c = packageName c @ ''@'' @ package_version c @ ''.7z''"

definition zipFilePath :: "config \<Rightarrow> string" where
  "zipFilePath c = path_join c (dirname c) (zipFileName c)"

definition compilerDirName :: "config \<Rightarrow> string" where
  "compilerDirName c = packageName c @ ''@'' @ package_version c"

definition compilerPath :: "config \<Rightarrow> string" where
  "compilerPath c = (if destDir c \<noteq> [] then path_join c (destDir c) (compilerDirName c) else [])"

definition removeFile :: "string \<Rightarrow> (unit, 'z) async" where
  "removeFile filePath w =
     (case unlink filePath w of
        (None, w1) \<Rightarrow> (Inr (), console_log (FileRemoved filePath) w1)
      | (Some err, w1) \<Rightarrow>
          if code err = Some ''ENOENT'' then (Inr (), console_log (FileAbsent filePath) w1)
          else (Inr (), console_warn (FileRemoveFailed filePath (message err)) w1))"

definition removeDirectory :: "config \<Rightarrow> string \<Rightarrow> (unit, 'z) async" where
  "removeDirectory c dirPath w =
     (case (if has_rmSync c then rmSync_recursive_force dirPath w
            else if has_rmdirSync c then rmdirSync_recursive dirPath w
            else (Some (new_Error txt_no_recursive_rm), w)) of
        (None, w1) \<Rightarrow> (Inr (), console_log (DirRemoved dirPath) w1)
      | (Some err, w1) \<Rightarrow>
          if code err = Some ''ENOENT'' then (Inr (), console_log (DirAbsent dirPath) w1)
          else (Inr (), console_warn (DirRemoveFailed dirPath (message err)) w1))"

definition uninstall :: "config \<Rightarrow> (unit, 'z) async" where
  "uninstall c w =
     (let w1 = console_log (UninstallBegin (packageName c) (package_version c)) w;
          w2 = console_log Step1 w1
      in
        case removeFile (zipFilePath c) w2 of
          (Inl err, w3) \<Rightarrow> (Inl err, w3)
        | (Inr u, w3) \<Rightarrow>
            (case (if destDir c = [] then (Inr (), console_log Step2Skipped w3)
                   else removeDirectory c (compilerPath c) (console_log (Step2 (compilerPath c)) w3)) of
               (Inl err, w4) \<Rightarrow> (Inl err, w4)
             | (Inr u, w4) \<Rightarrow> (Inr (), console_log (UninstallDone (packageName c)) w4)))"

section \<open>Vocabulary of the properties\<close>

subsection \<open>Attempts of withRetry\<close>







subsection \<open>Sample inputs\<close>

text \<open>A world with an empty disk, in which nothing has happened yet.\<close>

definition idle_world :: world where
  "idle_world =
     \<lparr>fs = Map.empty, refused = (\<lambda>_ _. None), console = [], timers = [],
      opened = [], open_answer = (\<lambda>_ _. Inr 3), close_answer = (\<lambda>_. None),
      requested = [], http_answer = (\<lambda>_ _. RequestError (new_Error ''offline'')),
      spawned = [], spawn_answer = (\<lambda>_. Exit (Some 0) [])\<rparr>"


definition never_lucky :: "(nat, unit) async" where
  "never_lucky w = (Inl (new_Error ''busy''), w)"

subsection \<open>Polls of waitForFileReady\<close>

text \<open>
  \<open>poll w filePath i\<close> is the answer to the \<open>i\<close>-th poll (counted from 0) of a wait
  that starts in \<open>w\<close>; an answer is transient when it is an error with one of the three
  codes of line 73. \<open>polls w w'\<close> counts the calls of \<open>fs.open\<close> between two states.
\<close>

definition poll :: "'z world_scheme \<Rightarrow> string \<Rightarrow> nat \<Rightarrow> js_error + nat" where
  "poll w filePath i = open_answer w (length (opened w) + i) filePath"

definition transient :: "js_error + nat \<Rightarrow> bool" where
  "transient r = (case r of Inl err \<Rightarrow> transient_code err | Inr fd \<Rightarrow> False)"

definition busy_through :: "'z world_scheme \<Rightarrow> string \<Rightarrow> nat \<Rightarrow> bool" where
  "busy_through w filePath n = list_all (\<lambda>i. transient (poll w filePath i)) [0..<n]"

definition polls :: "'z world_scheme \<Rightarrow> 'z world_scheme \<Rightarrow> nat" where
  "polls w w' = length (opened w') - length (opened w)"

text \<open>
  A file that is busy for the first two polls, one that stays busy, and one whose second
  poll fails with a code that is none of the three.
\<close>

definition busy_error :: js_error where
  "busy_error = fs_error ''EBUSY'' ''resource busy or locked'' ''open'' ''a.7z''"

definition busy_twice :: world where
  "busy_twice = idle_world\<lparr>open_answer := (\<lambda>i p. if i < 2 then Inl busy_error else Inr 3)\<rparr>"

definition busy_forever :: world where
  "busy_forever = idle_world\<lparr>open_answer := (\<lambda>i p. Inl busy_error)\<rparr>"

definition other_error :: js_error where
  "other_error = fs_error ''EMFILE'' ''too many open files'' ''open'' ''a.7z''"

definition busy_then_other :: world where
  "busy_then_other = idle_world\<lparr>open_answer := (\<lambda>i p. if i < 1 then Inl busy_error else Inl other_error)\<rparr>"

subsection \<open>Sample configurations and environments\<close>

text \<open>A package on a Linux host, with every variable set.\<close>

definition sample_config :: config where
  "sample_config =
     \<lparr>dirname = ''/pkg'', AILY_COMPILERS_PATH = Some ''/tools'', AILY_7ZA_PATH = Some ''/bin/7za'',
      AILY_ZIP_URL = Some ''https://example.org'', os_platform = ''linux'', os_arch = ''x64'',
      package_name = ''@aily-project/compiler-esp-x32'', package_version = ''1.0.0'',
      path_join = (\<lambda>a b. a @ ''/'' @ b), has_rmSync = True, has_rmdirSync = True\<rparr>"

text \<open>Child processes: one that exits with code 2 after a diagnostic, one that cannot start.\<close>

definition tool_fails :: world where
  "tool_fails = idle_world\<lparr>spawn_answer := (\<lambda>i. Exit (Some 2) [''Cannot open '', ''the file''])\<rparr>"

definition spawn_enoent :: js_error where
  "spawn_enoent = JsError ''Error'' ''spawn /bin/7za ENOENT'' (Some ''ENOENT'')"

definition tool_absent :: world where
  "tool_absent = idle_world\<lparr>spawn_answer := (\<lambda>i. SpawnError spawn_enoent)\<rparr>"

text \<open>
  Networks: a server that answers 404, one whose connection fails, one whose transfer
  breaks after 4096 bytes; and a disk that refuses to remove the archive.
\<close>

definition sample_archive :: string where
  "sample_archive = ''/pkg/esp-x32@1.0.0.7z''"








text \<open>
  Disks for the installer: only the package directory; the package, the archive tool and
  the destination; the same with the target directory already unpacked; the same with an
  archive of 500 KiB, and with one of 2 MiB, already downloaded.
\<close>

definition package_only :: world where
  "package_only = idle_world\<lparr>fs := [''/pkg'' \<mapsto> Dir 4096]\<rparr>"

definition ready_to_install :: world where
  "ready_to_install =
     idle_world\<lparr>fs := [''/pkg'' \<mapsto> Dir 4096, ''/bin/7za'' \<mapsto> File 1200000, ''/tools'' \<mapsto> Dir 4096]\<rparr>"

definition already_installed :: world where
  "already_installed =
     idle_world\<lparr>fs := [''/pkg'' \<mapsto> Dir 4096, ''/bin/7za'' \<mapsto> File 1200000, ''/tools'' \<mapsto> Dir 4096,
       ''/tools/esp-x32@1.0.0'' \<mapsto> Dir 4096]\<rparr>"

definition truncated_archive :: world where
  "truncated_archive =
     idle_world\<lparr>fs := [''/pkg'' \<mapsto> Dir 4096, ''/bin/7za'' \<mapsto> File 1200000, ''/tools'' \<mapsto> Dir 4096,
       sample_archive \<mapsto> File 512000]\<rparr>"

definition complete_archive :: world where
  "complete_archive =
     idle_world\<lparr>fs := [''/pkg'' \<mapsto> Dir 4096, ''/bin/7za'' \<mapsto> File 1200000, ''/tools'' \<mapsto> Dir 4096,
       sample_archive \<mapsto> File 2097152]\<rparr>"

text \<open>Configurations with one variable unset.\<close>

definition dest_unset :: config where
  "dest_unset = sample_config\<lparr>AILY_COMPILERS_PATH := None\<rparr>"

definition url_unset :: config where
  "url_unset = sample_config\<lparr>AILY_ZIP_URL := None\<rparr>"

text \<open>A version whose prerelease part contains the text of the archive extension.\<close>

definition prerelease_config :: config where
  "prerelease_config = sample_config\<lparr>package_version := ''1.0.0-rc.7z.1''\<rparr>"

section \<open>Properties of withRetry\<close>











lemma retry_loop_done:
  "\<not> attempt \<le> m \<Longrightarrow>
   retry_loop fn m d attempt le steps w = ((Inl (exhausted m le), steps), w)"
  by (subst retry_loop.simps) simp



lemma sublist_mid: "sublist x (a @ x @ b)"
  by (auto simp: sublist_def)







text \<open>
  Claim C10. With \<open>maxRetries\<close> below 1 the operation is never called, nothing is
  logged or waited for, and \<open>withRetry\<close> fails with the TypeError of reading
  \<open>message\<close> of the last error, which is still \<open>undefined\<close>.
\<close>

theorem withRetry_zero_attempts:
  "maxRetries < 1 \<Longrightarrow>
   withRetry fn maxRetries retryDelay w = ((Inl (undefined_property ''message''), []), w)
   \<and> invocations (snd (fst (withRetry fn maxRetries retryDelay w))) = 0
   \<and> err_name (undefined_property ''message'') = ''TypeError''"
  unfolding withRetry_def
  by (simp add: retry_loop_done exhausted_def invocations_def undefined_property_def)

theorem withRetry_zero_attempts_witness:
  "(0::int) < 1
   \<and> withRetry never_lucky 0 2000 idle_world = ((Inl (undefined_property ''message''), []), idle_world)"
  using withRetry_zero_attempts [of 0 never_lucky 2000 idle_world] by simp

section \<open>Properties of waitForFileReady\<close>

lemma busy_through_iff:
  "busy_through w p n \<longleftrightarrow> (\<forall>i<n. transient (poll w p i))"
  by (auto simp: busy_through_def list_all_iff)

lemma checkFile_busy:
  "open_answer w (length (opened w)) p = Inl err \<Longrightarrow> transient_code err \<Longrightarrow> a + 1 < m \<Longrightarrow>
   checkFile p m iv a w =
   checkFile p m iv (a + 1)
     (setTimeout iv (console_log (FileNotReady (a + 1) m) (w\<lparr>opened := opened w @ [p]\<rparr>)))"
  by (subst checkFile.simps) (simp add: fs_open_def)

lemma checkFile_exhausted:
  "open_answer w (length (opened w)) p = Inl err \<Longrightarrow> transient_code err \<Longrightarrow> \<not> a + 1 < m \<Longrightarrow>
   checkFile p m iv a w =
   ([Reject (new_Error (msg_not_ready m p))], w\<lparr>opened := opened w @ [p]\<rparr>)"
  by (subst checkFile.simps) (simp add: fs_open_def)

lemma checkFile_other:
  "open_answer w (length (opened w)) p = Inl err \<Longrightarrow> \<not> transient_code err \<Longrightarrow>
   checkFile p m iv a w = ([Reject err], w\<lparr>opened := opened w @ [p]\<rparr>)"
  by (subst checkFile.simps) (simp add: fs_open_def)

lemma checkFile_ready:
  "open_answer w (length (opened w)) p = Inr fd \<Longrightarrow>
   fst (checkFile p m iv a w) = [Resolve ()]
   \<and> opened (snd (checkFile p m iv a w)) = opened w @ [p]"
  by (subst checkFile.simps, subst (2) checkFile.simps)
    (simp add: fs_open_def fs_close_def console_log_def console_warn_def split: option.split)

lemma checkFile_unroll:
  "busy_through w p j \<Longrightarrow> a + int j < m \<Longrightarrow>
   \<exists>w'. checkFile p m iv a w = checkFile p m iv (a + int j) w'
      \<and> opened w' = opened w @ replicate j p \<and> open_answer w' = open_answer w"
proof (induction j)
  case 0
  show ?case by (rule exI [of _ w]) simp
next
  case (Suc j)
  from Suc.prems have "busy_through w p j" and "a + int j < m"
    by (simp_all add: busy_through_iff)
  from Suc.IH [OF this] obtain w' where
    eq: "checkFile p m iv a w = checkFile p m iv (a + int j) w'"
    and op: "opened w' = opened w @ replicate j p" and an: "open_answer w' = open_answer w"
    by blast
  from Suc.prems(1) have "transient (poll w p j)" by (simp add: busy_through_iff)
  then obtain err where err: "open_answer w' (length (opened w')) p = Inl err"
    and tr: "transient_code err"
    by (auto simp: transient_def poll_def op an split: sum.splits)
  from Suc.prems(2) have lt: "a + int j + 1 < m" by simp
  let ?w = "setTimeout iv (console_log (FileNotReady (a + int j + 1) m) (w'\<lparr>opened := opened w' @ [p]\<rparr>))"
  have "checkFile p m iv a w = checkFile p m iv (a + int (Suc j)) ?w"
    unfolding eq checkFile_busy [OF err tr lt] by (simp add: ac_simps)
  moreover have "opened ?w = opened w @ replicate (Suc j) p"
    by (simp add: setTimeout_def console_log_def op replicate_append_same)
  moreover have "open_answer ?w = open_answer w"
    by (simp add: setTimeout_def console_log_def an)
  ultimately show ?case by blast
qed

lemma checkFile_once: "length (fst (checkFile p m iv a w)) = 1"
proof (induction p m iv a w rule: checkFile.induct)
  case (1 filePath maxAttempts interval attempts w)
  show ?case
    by (subst checkFile.simps)
      (auto simp: 1 split: prod.splits sum.splits option.splits)
qed

lemma polls_left: "a + 1 < m \<Longrightarrow> Suc (max 1 (nat (m - (a + 1)))) \<le> max 1 (nat (m - a))"
  for a m :: int
  by (simp add: max_def) linarith

lemma checkFile_polls:
  "length (opened (snd (checkFile p m iv a w))) \<le> length (opened w) + max 1 (nat (m - a))"
proof (induction p m iv a w rule: checkFile.induct)
  case (1 filePath maxAttempts interval attempts w)
  show ?case
  proof (cases "fs_open filePath w")
    case (Pair r w1)
    then have w1: "opened w1 = opened w @ [filePath]" by (auto simp: fs_open_def)
    show ?thesis
    proof (cases r)
      case (Inl err)
      show ?thesis
      proof (cases "transient_code err \<and> attempts + 1 < maxAttempts")
        case True
        with 1 [OF Pair [symmetric, unfolded Inl]] Pair Inl w1 polls_left [of attempts maxAttempts]
        show ?thesis
          by (subst checkFile.simps) (simp add: setTimeout_def console_log_def)
      next
        case False
        with Pair Inl w1 show ?thesis
          by (subst checkFile.simps) auto
      qed
    next
      case (Inr fd)
      with Pair w1 show ?thesis
        by (subst checkFile.simps)
          (auto simp: fs_close_def console_log_def console_warn_def split: option.splits)
    qed
  qed
qed


lemma msg_not_ready_count: "sublist (js_num m) (msg_not_ready m p)"
  unfolding msg_not_ready_def by (rule sublist_mid)

lemma msg_not_ready_path: "sublist p (msg_not_ready m p)"
  unfolding msg_not_ready_def sublist_def
  by (rule exI [of _ "txt_not_ready_a @ js_num m @ txt_not_ready_b"], rule exI [of _ "[]"]) simp

text \<open>
  Claim C3. Let \<open>maxAttempts\<close> be at least 1. While the polls answer with the code
  \<open>EBUSY\<close>, \<open>ENOENT\<close> or \<open>EPERM\<close>, \<open>waitForFileReady\<close> polls again.
  It resolves at the first poll that opens the file; a poll that fails with any other error
  rejects with that error, and no poll follows; when \<open>maxAttempts\<close> polls have all
  been transient it rejects with an error that names the path and the attempt count. In
  every case \<open>resolve\<close> or \<open>reject\<close> is called exactly once, after at most
  \<open>maxAttempts\<close> polls.
\<close>

theorem waitForFileReady_polls:
  assumes "1 \<le> maxAttempts"
  shows
    "(busy_through w filePath j \<and> int j < maxAttempts \<and> poll w filePath j = Inr fd \<longrightarrow>
        fst (waitForFileReady filePath maxAttempts interval w) = [Resolve ()]
        \<and> polls w (snd (waitForFileReady filePath maxAttempts interval w)) = j + 1)
     \<and> (busy_through w filePath j \<and> int j < maxAttempts \<and> poll w filePath j = Inl err
          \<and> \<not> transient_code err \<longrightarrow>
        fst (waitForFileReady filePath maxAttempts interval w) = [Reject err]
        \<and> polls w (snd (waitForFileReady filePath maxAttempts interval w)) = j + 1)
     \<and> (busy_through w filePath (nat maxAttempts) \<longrightarrow>
        fst (waitForFileReady filePath maxAttempts interval w) =
          [Reject (new_Error (msg_not_ready maxAttempts filePath))]
        \<and> polls w (snd (waitForFileReady filePath maxAttempts interval w)) = nat maxAttempts
        \<and> sublist filePath (msg_not_ready maxAttempts filePath)
        \<and> sublist (js_num maxAttempts) (msg_not_ready maxAttempts filePath))
     \<and> length (fst (waitForFileReady filePath maxAttempts interval w)) = 1
     \<and> polls w (snd (waitForFileReady filePath maxAttempts interval w)) \<le> nat maxAttempts"
proof -
  let ?m = maxAttempts
  let ?r = "waitForFileReady filePath ?m interval w"
  have ready: "fst ?r = [Resolve ()] \<and> polls w (snd ?r) = j + 1"
    if "busy_through w filePath j" "int j < ?m" "poll w filePath j = Inr fd"
  proof -
    from checkFile_unroll [of w filePath j 0 ?m interval] that obtain w' where
      eq: "checkFile filePath ?m interval 0 w = checkFile filePath ?m interval (int j) w'"
      and op: "opened w' = opened w @ replicate j filePath" and an: "open_answer w' = open_answer w"
      by auto
    from that(3) have "open_answer w' (length (opened w')) filePath = Inr fd"
      by (simp add: poll_def op an)
    from checkFile_ready [OF this, where m = ?m and iv = interval and a = "int j"] show ?thesis
      by (simp add: waitForFileReady_def eq polls_def op)
  qed
  have other: "fst ?r = [Reject err] \<and> polls w (snd ?r) = j + 1"
    if "busy_through w filePath j" "int j < ?m" "poll w filePath j = Inl err" "\<not> transient_code err"
  proof -
    from checkFile_unroll [of w filePath j 0 ?m interval] that obtain w' where
      eq: "checkFile filePath ?m interval 0 w = checkFile filePath ?m interval (int j) w'"
      and op: "opened w' = opened w @ replicate j filePath" and an: "open_answer w' = open_answer w"
      by auto
    from that(3) have "open_answer w' (length (opened w')) filePath = Inl err"
      by (simp add: poll_def op an)
    from checkFile_other [OF this that(4), where m = ?m and iv = interval and a = "int j"] show ?thesis
      by (simp add: waitForFileReady_def eq polls_def op)
  qed
  have exhausted: "fst ?r = [Reject (new_Error (msg_not_ready ?m filePath))]
      \<and> polls w (snd ?r) = nat ?m"
    if bt: "busy_through w filePath (nat ?m)"
  proof -
    from assms obtain n where n: "nat ?m = Suc n" by (cases "nat ?m") auto
    with assms have m: "?m = int n + 1" by linarith
    from bt n have "busy_through w filePath n" and last: "transient (poll w filePath n)"
      by (simp_all add: busy_through_iff)
    with checkFile_unroll [of w filePath n 0 ?m interval] m obtain w' where
      eq: "checkFile filePath ?m interval 0 w = checkFile filePath ?m interval (int n) w'"
      and op: "opened w' = opened w @ replicate n filePath" and an: "open_answer w' = open_answer w"
      by auto
    from last obtain e where e: "open_answer w' (length (opened w')) filePath = Inl e"
      and tr: "transient_code e"
      by (auto simp: transient_def poll_def op an split: sum.splits)
    have "\<not> int n + 1 < ?m" using m by simp
    from checkFile_exhausted [OF e tr this, where iv = interval] show ?thesis
      by (simp add: waitForFileReady_def eq polls_def op n)
  qed
  have once: "length (fst ?r) = 1"
    by (simp add: waitForFileReady_def checkFile_once)
  have bound: "polls w (snd ?r) \<le> nat ?m"
    using checkFile_polls [of filePath ?m interval 0 w] assms
    by (simp add: waitForFileReady_def polls_def max_def split: if_splits)
  show ?thesis
    using ready other exhausted once bound
    by (simp add: msg_not_ready_count msg_not_ready_path)
qed

lemmas wait_eval =
  busy_through_def poll_def transient_def transient_code_def busy_twice_def busy_forever_def
  busy_then_other_def idle_world_def busy_error_def other_error_def fs_error_def
  upt_rec [of 0] upt_rec [of "Suc 0"] upt_rec [of 1] upt_rec [of 2] upt_rec [of 3]

theorem waitForFileReady_polls_witness:
  "(busy_through busy_twice ''a.7z'' 2 \<and> poll busy_twice ''a.7z'' 2 = Inr 3
      \<and> fst (waitForFileReady ''a.7z'' 20 500 busy_twice) = [Resolve ()]
      \<and> polls busy_twice (snd (waitForFileReady ''a.7z'' 20 500 busy_twice)) = 3)
   \<and> (busy_through busy_then_other ''a.7z'' 1 \<and> poll busy_then_other ''a.7z'' 1 = Inl other_error
      \<and> \<not> transient_code other_error
      \<and> fst (waitForFileReady ''a.7z'' 20 500 busy_then_other) = [Reject other_error]
      \<and> polls busy_then_other (snd (waitForFileReady ''a.7z'' 20 500 busy_then_other)) = 2)
   \<and> (busy_through busy_forever ''a.7z'' (nat 3)
      \<and> fst (waitForFileReady ''a.7z'' 3 500 busy_forever) =
          [Reject (new_Error (msg_not_ready 3 ''a.7z''))]
      \<and> polls busy_forever (snd (waitForFileReady ''a.7z'' 3 500 busy_forever)) = 3)"
proof -
  have a: "busy_through busy_twice ''a.7z'' 2 \<and> poll busy_twice ''a.7z'' 2 = Inr 3"
    by (simp add: wait_eval)
  have b: "busy_through busy_then_other ''a.7z'' 1
      \<and> poll busy_then_other ''a.7z'' 1 = Inl other_error \<and> \<not> transient_code other_error"
    by (simp add: wait_eval)
  have c: "busy_through busy_forever ''a.7z'' (nat 3)"
    by (simp add: wait_eval numeral_3_eq_3)
  have m20: "(1::int) \<le> 20" and m3: "(1::int) \<le> 3" by simp_all
  from waitForFileReady_polls [OF m20, of busy_twice "''a.7z''" 2 3 500] a
  have "fst (waitForFileReady ''a.7z'' 20 500 busy_twice) = [Resolve ()]
      \<and> polls busy_twice (snd (waitForFileReady ''a.7z'' 20 500 busy_twice)) = 3"
    by simp
  moreover
  from waitForFileReady_polls [OF m20, of busy_then_other "''a.7z''" 1 _ 500 other_error] b
  have "fst (waitForFileReady ''a.7z'' 20 500 busy_then_other) = [Reject other_error]
      \<and> polls busy_then_other (snd (waitForFileReady ''a.7z'' 20 500 busy_then_other)) = 2"
    by simp
  moreover
  from waitForFileReady_polls [OF m3, of busy_forever "''a.7z''" _ _ 500] c
  have "fst (waitForFileReady ''a.7z'' 3 500 busy_forever) =
          [Reject (new_Error (msg_not_ready 3 ''a.7z''))]
      \<and> polls busy_forever (snd (waitForFileReady ''a.7z'' 3 500 busy_forever)) = 3"
    by simp
  ultimately show ?thesis using a b c by simp
qed

section \<open>Properties of unpack\<close>

lemma msg_exit_code_code: "sublist (exit_code_text c) (msg_exit_code c out)"
  unfolding msg_exit_code_def by (rule sublist_mid)

lemma msg_exit_code_output: "sublist out (msg_exit_code c out)"
  unfolding msg_exit_code_def sublist_def
  by (rule exI [of _ "txt_exit_code @ exit_code_text c @ [CHR 0x0A]"], rule exI [of _ "[]"]) simp

text \<open>
  Claim C7. With a non-empty archive path and a non-empty destination, \<open>unpack\<close>
  spawns the archive tool once, with the arguments \<open>x\<close>, the archive, \<open>-y\<close> and
  \<open>-o\<close> followed by the destination, and it resolves exactly when the child exits
  with code 0. On any other exit code it rejects with an error whose message contains the
  exit code and the output captured from standard output and standard error; when the
  child cannot be spawned it rejects with the error of the operating system. With an empty
  archive path or an empty destination it rejects and nothing is spawned (the state is
  unchanged).
\<close>

theorem unpack_outcomes:
  "(archivePath \<noteq> [] \<and> destination \<noteq> [] \<longrightarrow>
      (fst (unpack c archivePath destination w) = Inr ()
         \<longleftrightarrow> (\<exists>chunks. spawn_answer w (length (spawned w)) = Exit (Some 0) chunks))
      \<and> (\<forall>exitCode chunks.
            spawn_answer w (length (spawned w)) = Exit exitCode chunks \<and> exitCode \<noteq> Some 0 \<longrightarrow>
            fst (unpack c archivePath destination w) =
              Inl (new_Error (msg_exit_code exitCode (concat chunks)))
            \<and> sublist (exit_code_text exitCode) (msg_exit_code exitCode (concat chunks))
            \<and> sublist (concat chunks) (msg_exit_code exitCode (concat chunks)))
      \<and> (\<forall>err. spawn_answer w (length (spawned w)) = SpawnError err \<longrightarrow>
            fst (unpack c archivePath destination w) = Inl err)
      \<and> spawned (snd (unpack c archivePath destination w)) =
          spawned w @ [(sevenZaPath c, [''x'', archivePath, ''-y'', ''-o'' @ destination])])
   \<and> (archivePath = [] \<or> destination = [] \<longrightarrow>
      isl (fst (unpack c archivePath destination w))
      \<and> snd (unpack c archivePath destination w) = w)"
proof (cases "archivePath = [] \<or> destination = []")
  case True
  then show ?thesis by (auto simp: unpack_def)
next
  case False
  then have ne: "archivePath \<noteq> []" "destination \<noteq> []" by simp_all
  show ?thesis
  proof (cases "spawn_answer w (length (spawned w))")
    case (SpawnError err)
    with ne show ?thesis
      by (simp add: unpack_def spawn_def console_log_def console_error_def Let_def)
  next
    case (Exit exitCode chunks)
    with ne show ?thesis
      by (simp add: unpack_def spawn_def console_log_def console_error_def Let_def
          msg_exit_code_code msg_exit_code_output)
  qed
qed

theorem unpack_outcomes_witness:
  "(''/pkg/a.7z'' \<noteq> [] \<and> ''/tools'' \<noteq> []
      \<and> spawn_answer tool_fails (length (spawned tool_fails)) = Exit (Some 2) [''Cannot open '', ''the file'']
      \<and> Some 2 \<noteq> Some (0::nat)
      \<and> fst (unpack sample_config ''/pkg/a.7z'' ''/tools'' tool_fails) =
          Inl (new_Error (msg_exit_code (Some 2) ''Cannot open the file''))
      \<and> spawn_answer tool_absent (length (spawned tool_absent)) = SpawnError spawn_enoent
      \<and> fst (unpack sample_config ''/pkg/a.7z'' ''/tools'' tool_absent) = Inl spawn_enoent)
   \<and> (([]::string) = [] \<or> ''/tools'' = [])
      \<and> snd (unpack sample_config [] ''/tools'' idle_world) = idle_world"
proof -
  have a: "spawn_answer tool_fails (length (spawned tool_fails)) = Exit (Some 2) [''Cannot open '', ''the file'']"
    and b: "spawn_answer tool_absent (length (spawned tool_absent)) = SpawnError spawn_enoent"
    by (simp_all add: tool_fails_def tool_absent_def idle_world_def)
  from unpack_outcomes [of "''/pkg/a.7z''" "''/tools''" sample_config tool_fails] a
  have "fst (unpack sample_config ''/pkg/a.7z'' ''/tools'' tool_fails) =
          Inl (new_Error (msg_exit_code (Some 2) ''Cannot open the file''))"
    by simp
  moreover
  from unpack_outcomes [of "''/pkg/a.7z''" "''/tools''" sample_config tool_absent] b
  have "fst (unpack sample_config ''/pkg/a.7z'' ''/tools'' tool_absent) = Inl spawn_enoent"
    by simp
  moreover
  from unpack_outcomes [of "[]" "''/tools''" sample_config idle_world]
  have "snd (unpack sample_config [] ''/tools'' idle_world) = idle_world"
    by simp
  ultimately show ?thesis using a b by simp
qed

section \<open>Properties of getZipFile\<close>






section \<open>Properties of extractArchives: the checks\<close>

lemma console_log_calls [simp]:
  "requested (console_log l w) = requested w" "spawned (console_log l w) = spawned w"
  "opened (console_log l w) = opened w" "fs (console_log l w) = fs w"
  "refused (console_log l w) = refused w"
  by (simp_all add: console_log_def)

lemma console_error_calls [simp]:
  "requested (console_error l w) = requested w" "spawned (console_error l w) = spawned w"
  "opened (console_error l w) = opened w"
  by (simp_all add: console_error_def)

lemma ensure_destDir_calls:
  "requested (snd (ensure_destDir c w)) = requested w"
  "spawned (snd (ensure_destDir c w)) = spawned w"
  by (simp_all add: ensure_destDir_def mkdirSync_def split: option.splits entry.splits)

text \<open>
  Claim C5. When the target directory, \<open>destDir\<close> joined with the archive name
  without \<open>.7z\<close>, exists as \<open>extractArchives\<close> starts, no request is sent, no
  child process is spawned and the process ends with status 0; when the two checks that
  come before the computation of the target pass (the source directory exists, the
  destination is set), the run consists of the two log lines of the skip.
\<close>

theorem install_skips_when_installed:
  "existsSync (targetPath c) w \<longrightarrow>
     requested (snd (extractArchives c w)) = requested w
     \<and> spawned (snd (extractArchives c w)) = spawned w
     \<and> exit_status (fst (extractArchives c w)) = 0
     \<and> (existsSync (srcDir c) w \<and> destDir c \<noteq> [] \<longrightarrow>
          extractArchives c w =
            (Returned, console_log SkipInstall (console_log (TargetExists (targetPath c)) w)))"
  by (simp add: extractArchives_def)

lemmas install_eval =
  extractArchives_def existsSync_def srcDir_def destDir_def sevenZaPath_def targetPath_def
  targetDirName_def getZipFileName_def package_prefix_def or_empty_def sample_config_def
  dest_unset_def url_unset_def idle_world_def package_only_def ready_to_install_def
  already_installed_def truncated_archive_def complete_archive_def sample_archive_def

theorem install_skips_when_installed_witness:
  "existsSync (targetPath sample_config) already_installed
   \<and> existsSync (srcDir sample_config) already_installed \<and> destDir sample_config \<noteq> []
   \<and> extractArchives sample_config already_installed =
       (Returned, console_log SkipInstall
          (console_log (TargetExists ''/tools/esp-x32@1.0.0'') already_installed))
   \<and> requested (snd (extractArchives sample_config already_installed)) = []
   \<and> spawned (snd (extractArchives sample_config already_installed)) = []"
proof -
  have a: "existsSync (targetPath sample_config) already_installed"
    and b: "existsSync (srcDir sample_config) already_installed \<and> destDir sample_config \<noteq> []"
    and c: "targetPath sample_config = ''/tools/esp-x32@1.0.0''"
    and d: "requested already_installed = []" "spawned already_installed = []"
    by (simp_all add: install_eval)
  from install_skips_when_installed [of sample_config already_installed] a b c d
  show ?thesis by simp
qed

text \<open>
  Claim C1, as amended. A missing source directory, an unset destination directory and a
  missing archive tool are each logged with \<open>console.error\<close>, and
  \<open>extractArchives\<close> returns: \<open>process.exit\<close> is not called. An unset download
  base URL, met when the earlier checks pass, the target is absent and the destination
  directory exists or could be made, is logged and ends the process with status 1. After
  any of the four no request is sent and no child process is spawned, and nothing is
  retried.
\<close>

theorem install_precondition_failures:
  "(\<not> existsSync (srcDir c) w \<longrightarrow>
      extractArchives c w = (Returned, console_error (SrcDirMissing (srcDir c)) w)
      \<and> exit_status (fst (extractArchives c w)) = 0)
   \<and> (existsSync (srcDir c) w \<and> destDir c = [] \<longrightarrow>
      extractArchives c w = (Returned, console_error DestDirUnset w)
      \<and> exit_status (fst (extractArchives c w)) = 0)
   \<and> (existsSync (srcDir c) w \<and> destDir c \<noteq> [] \<and> \<not> existsSync (targetPath c) w
        \<and> \<not> existsSync (sevenZaPath c) w \<longrightarrow>
      extractArchives c w = (Returned, console_error (ToolMissing (sevenZaPath c)) w)
      \<and> exit_status (fst (extractArchives c w)) = 0)
   \<and> (existsSync (srcDir c) w \<and> destDir c \<noteq> [] \<and> \<not> existsSync (targetPath c) w
        \<and> existsSync (sevenZaPath c) w \<and> or_empty (AILY_ZIP_URL c) = []
        \<and> fst (ensure_destDir c w) = Inr () \<longrightarrow>
      extractArchives c w =
        (Exited 1, console_error (Fatal (new_Error txt_url_unset)) (snd (ensure_destDir c w)))
      \<and> exit_status (fst (extractArchives c w)) = 1)
   \<and> ((\<not> existsSync (srcDir c) w \<or> destDir c = [] \<or> \<not> existsSync (sevenZaPath c) w
         \<or> or_empty (AILY_ZIP_URL c) = []) \<longrightarrow>
      requested (snd (extractArchives c w)) = requested w
      \<and> spawned (snd (extractArchives c w)) = spawned w)"
proof -
  have url: "extractArchives c w =
      (Exited 1, console_error (Fatal (new_Error txt_url_unset)) (snd (ensure_destDir c w)))"
    if "existsSync (srcDir c) w" "destDir c \<noteq> []" "\<not> existsSync (targetPath c) w"
      "existsSync (sevenZaPath c) w" "or_empty (AILY_ZIP_URL c) = []" "fst (ensure_destDir c w) = Inr ()"
    using that
    by (cases "ensure_destDir c w") (simp add: extractArchives_def download_def fatal_def)
  have quiet: "requested (snd (extractArchives c w)) = requested w
      \<and> spawned (snd (extractArchives c w)) = spawned w"
    if "or_empty (AILY_ZIP_URL c) = []"
    using that ensure_destDir_calls [of c w]
    by (cases "ensure_destDir c w"; cases "fst (ensure_destDir c w)")
      (auto simp: extractArchives_def download_def fatal_def)
  show ?thesis
    using url quiet by (auto simp: extractArchives_def)
qed

theorem install_precondition_failures_witness:
  "(\<not> existsSync (srcDir sample_config) idle_world
      \<and> extractArchives sample_config idle_world =
          (Returned, console_error (SrcDirMissing ''/pkg'') idle_world))
   \<and> (existsSync (srcDir dest_unset) package_only \<and> destDir dest_unset = []
      \<and> extractArchives dest_unset package_only = (Returned, console_error DestDirUnset package_only))
   \<and> (existsSync (srcDir sample_config) package_only \<and> destDir sample_config \<noteq> []
      \<and> \<not> existsSync (targetPath sample_config) package_only
      \<and> \<not> existsSync (sevenZaPath sample_config) package_only
      \<and> extractArchives sample_config package_only =
          (Returned, console_error (ToolMissing ''/bin/7za'') package_only))
   \<and> (existsSync (srcDir url_unset) ready_to_install \<and> destDir url_unset \<noteq> []
      \<and> \<not> existsSync (targetPath url_unset) ready_to_install
      \<and> existsSync (sevenZaPath url_unset) ready_to_install
      \<and> or_empty (AILY_ZIP_URL url_unset) = []
      \<and> fst (ensure_destDir url_unset ready_to_install) = Inr ()
      \<and> extractArchives url_unset ready_to_install =
          (Exited 1, console_error (Fatal (new_Error txt_url_unset)) ready_to_install)
      \<and> requested (snd (extractArchives url_unset ready_to_install)) = []
      \<and> spawned (snd (extractArchives url_unset ready_to_install)) = [])"
proof -
  have a: "\<not> existsSync (srcDir sample_config) idle_world" "srcDir sample_config = ''/pkg''"
    by (simp_all add: install_eval)
  have b: "existsSync (srcDir dest_unset) package_only \<and> destDir dest_unset = []"
    by (simp add: install_eval)
  have c: "existsSync (srcDir sample_config) package_only \<and> destDir sample_config \<noteq> []
      \<and> \<not> existsSync (targetPath sample_config) package_only
      \<and> \<not> existsSync (sevenZaPath sample_config) package_only"
    "sevenZaPath sample_config = ''/bin/7za''"
    by (simp_all add: install_eval)
  have d: "existsSync (srcDir url_unset) ready_to_install \<and> destDir url_unset \<noteq> []
      \<and> \<not> existsSync (targetPath url_unset) ready_to_install
      \<and> existsSync (sevenZaPath url_unset) ready_to_install
      \<and> or_empty (AILY_ZIP_URL url_unset) = []"
    by (simp add: install_eval)
  have d': "ensure_destDir url_unset ready_to_install = (Inr (), ready_to_install)"
    "requested ready_to_install = []" "spawned ready_to_install = []"
    by (simp_all add: ensure_destDir_def install_eval)
  from install_precondition_failures [of sample_config idle_world] a
  have "extractArchives sample_config idle_world =
      (Returned, console_error (SrcDirMissing ''/pkg'') idle_world)"
    by simp
  moreover from install_precondition_failures [of dest_unset package_only] b
  have "extractArchives dest_unset package_only = (Returned, console_error DestDirUnset package_only)"
    by simp
  moreover from install_precondition_failures [of sample_config package_only] c
  have "extractArchives sample_config package_only =
      (Returned, console_error (ToolMissing ''/bin/7za'') package_only)"
    by simp
  moreover from install_precondition_failures [of url_unset ready_to_install] d d'
  have "extractArchives url_unset ready_to_install =
          (Exited 1, console_error (Fatal (new_Error txt_url_unset)) ready_to_install)
      \<and> requested (snd (extractArchives url_unset ready_to_install)) = []
      \<and> spawned (snd (extractArchives url_unset ready_to_install)) = []"
    by simp
  ultimately show ?thesis using a b c d d' by simp
qed

text \<open>
  Claim C1 as stated has every failed check end the process with a status other than 0.
  With \<open>AILY_COMPILERS_PATH\<close> unset, line 211 returns from the function; the status
  of the process is 0.
\<close>

theorem install_unset_destination_exits_zero:
  "existsSync (srcDir dest_unset) package_only
   \<and> destDir dest_unset = []
   \<and> extractArchives dest_unset package_only = (Returned, console_error DestDirUnset package_only)
   \<and> exit_status (fst (extractArchives dest_unset package_only)) = 0"
  by (simp add: install_eval)

section \<open>Properties of extractArchives: the size check\<close>














section \<open>Properties of uninstall.js and of the directory names\<close>

text \<open>
  What holds of the clean-up for every disk: neither step throws, so both are attempted
  and \<open>uninstall\<close> completes; an absent archive is reported as absent; a removal
  that is refused is a warning.
\<close>

lemma removeFile_resolves: "fst (removeFile p w) = Inr ()"
  by (simp add: removeFile_def split: prod.splits option.splits)

lemma removeDirectory_resolves: "fst (removeDirectory c p w) = Inr ()"
  by (simp add: removeDirectory_def split: prod.splits option.splits)

lemma uninstall_resolves: "fst (uninstall c w) = Inr ()"
proof -
  obtain w3 where a: "removeFile (zipFilePath c)
      (console_log Step1 (console_log (UninstallBegin (packageName c) (package_version c)) w)) = (Inr (), w3)"
    using removeFile_resolves
    by (metis (no_types) prod.collapse)
  obtain w4 where b: "removeDirectory c (compilerPath c) (console_log (Step2 (compilerPath c)) w3)
      = (Inr (), w4)"
    using removeDirectory_resolves by (metis (no_types) prod.collapse)
  show ?thesis
    by (simp add: uninstall_def Let_def a b)
qed

lemma removeFile_absent:
  "fs w p = None \<Longrightarrow> removeFile p w = (Inr (), console_log (FileAbsent p) w)"
  by (simp add: removeFile_def unlink_def enoent_def fs_error_def)

lemma removeFile_refused:
  "fs w p = Some (File n) \<Longrightarrow> refused w Unlink p = Some err \<Longrightarrow> code err \<noteq> Some ''ENOENT'' \<Longrightarrow>
   removeFile p w = (Inr (), console_warn (FileRemoveFailed p (message err)) w)"
  by (simp add: removeFile_def unlink_def)

text \<open>The directory step, when \<open>fs.rmSync\<close> is there and the directory is not.\<close>

lemma removeDirectory_force_absent:
  "has_rmSync c \<Longrightarrow> fs w p = None \<Longrightarrow>
   removeDirectory c p w = (Inr (), console_log (DirRemoved p) w)"
  by (simp add: removeDirectory_def rmSync_recursive_force_def)


lemmas uninstall_eval =
  uninstall_def removeFile_def removeDirectory_def unlink_def rmSync_recursive_force_def
  zipFilePath_def zipFileName_def packageName_def compilerPath_def compilerDirName_def
  destDir_def or_empty_def package_prefix_def console_log_def console_warn_def Let_def
  enoent_def fs_error_def sample_config_def idle_world_def

text \<open>
  Claim C8 has the absence of the extracted directory logged as a no-op. On a Node.js with
  \<open>fs.rmSync\<close> the directory is removed with \<open>force: true\<close>, which raises
  nothing for a missing path, so the branch of line 65 is not taken: with neither the
  archive nor the directory on the disk, \<open>uninstall\<close> completes without an error,
  reports the archive as absent and reports the directory as removed.
\<close>

theorem uninstall_reports_absent_directory_removed:
  "fs idle_world (zipFilePath sample_config) = None
   \<and> compilerPath sample_config = ''/tools/esp-x32@1.0.0''
   \<and> fs idle_world (compilerPath sample_config) = None
   \<and> has_rmSync sample_config
   \<and> uninstall sample_config idle_world =
       (Inr (),
        idle_world\<lparr>console :=
          [(LOG, UninstallBegin ''esp-x32'' ''1.0.0''), (LOG, Step1),
           (LOG, FileAbsent ''/pkg/esp-x32@1.0.0.7z''),
           (LOG, Step2 ''/tools/esp-x32@1.0.0''), (LOG, DirRemoved ''/tools/esp-x32@1.0.0''),
           (LOG, UninstallDone ''esp-x32'')]\<rparr>)"
  by (simp add: uninstall_eval)

text \<open>
  Claim C9 has the directory name of the installer equal to the one of uninstall.js for
  every name and version. Line 216 removes the first \<open>.7z\<close> of the archive name,
  not the extension: for the version \<open>1.0.0-rc.7z.1\<close> the installer looks for
  another directory than the one uninstall.js removes. (The two agree whenever \<open>.7z\<close>
  does not occur in the name of uninstall.js: \<open>targetDirName_compilerDirName\<close> below.)
\<close>

theorem targetDirName_not_compilerDirName:
  "getZipFileName prerelease_config = ''esp-x32@1.0.0-rc.7z.1.7z''
   \<and> targetDirName prerelease_config = ''esp-x32@1.0.0-rc.1.7z''
   \<and> compilerDirName prerelease_config = ''esp-x32@1.0.0-rc.7z.1''
   \<and> targetPath prerelease_config = ''/tools/esp-x32@1.0.0-rc.1.7z''
   \<and> compilerPath prerelease_config = ''/tools/esp-x32@1.0.0-rc.7z.1''
   \<and> targetDirName prerelease_config \<noteq> compilerDirName prerelease_config"
  by (simp add: targetDirName_def targetPath_def getZipFileName_def compilerDirName_def
      compilerPath_def packageName_def package_prefix_def destDir_def or_empty_def
      prerelease_config_def sample_config_def)

text \<open>Where the two names agree.\<close>

lemma no_7z_Cons: "\<not> sublist ''.7z'' (c # cs) \<Longrightarrow> \<not> sublist ''.7z'' cs"
  by (auto simp: sublist_Cons_right)

lemma no_7z_prefix: "\<not> sublist ''.7z'' base \<Longrightarrow> \<not> prefix ''.7z'' (base @ ''.7z'') \<or> base = []"
proof (cases base)
  case Nil
  then show ?thesis by simp
next
  case (Cons a as)
  assume no: "\<not> sublist ''.7z'' base"
  then have np: "\<not> prefix ''.7z'' base" by (auto dest: prefix_imp_sublist)
  show ?thesis
  proof (cases as)
    case Nil
    with Cons show ?thesis by auto
  next
    case (Cons b bs)
    note as = this
    show ?thesis
    proof (cases bs)
      case Nil
      with as \<open>base = a # as\<close> show ?thesis by auto
    next
      case (Cons d ds)
      with as \<open>base = a # as\<close> np show ?thesis by auto
    qed
  qed
qed

lemma strip_7z: "\<not> sublist ''.7z'' base \<Longrightarrow> replace_first ''.7z'' [] (base @ ''.7z'') = base"
proof (induction base)
  case Nil
  show ?case by simp
next
  case (Cons c cs)
  from no_7z_prefix [OF Cons.prems] have np: "\<not> prefix ''.7z'' ((c # cs) @ ''.7z'')" by blast
  have "replace_first ''.7z'' [] ((c # cs) @ ''.7z'') = c # replace_first ''.7z'' [] (cs @ ''.7z'')"
    using np by (simp only: append_Cons replace_first.simps if_False)
  moreover from Cons have "replace_first ''.7z'' [] (cs @ ''.7z'') = cs"
    by (auto dest: no_7z_Cons)
  ultimately show ?case by simp
qed

lemma targetDirName_compilerDirName:
  "\<not> sublist ''.7z'' (compilerDirName c) \<Longrightarrow> targetDirName c = compilerDirName c"
  using strip_7z [of "compilerDirName c"]
  by (simp add: targetDirName_def getZipFileName_def compilerDirName_def packageName_def)

end
